theory Spec2Isabelle
  imports Complex_Main "HOL-Library.AList"
begin

section \<open>Values shared by the packages\<close>

text \<open>
  A Go \<open>error\<close> value is identified here by its message. A \<open>float64\<close> is a finite
  number or one of the three special values; the code only copies and stores floats, so
  finite values are carried as reals (negative zero is not told apart from zero). A
  \<open>time.Time\<close> is the number of nanoseconds since January 1 of year 1, 00:00 UTC, which
  is Go's zero value of the type.
\<close>

datatype error = Error string

datatype float64 = Finite real | PosInf | NegInf | NaN

datatype Time = Instant int

definition zero_float64 :: float64 where
  "zero_float64 = Finite 0"

definition zero_Time :: Time where
  "zero_Time = Instant 0"

text \<open>
  A call either returns a value, returns an error, or panics. \<open>Fail\<close> is Go's
  \<open>(zero, err)\<close> with \<open>err != nil\<close>.
\<close>

datatype 'a outcome = Ok 'a | Fail error | Panic string

subsection \<open>wsclient.Ticker\<close>

record Ticker =
  ID :: string
  FullName :: string
  Ask :: float64
  Bid :: float64
  Last :: float64
  Open :: float64
  Low :: float64
  High :: float64
  Volume :: float64
  VolumeQuote :: float64
  Timestamp :: Time
  Symbol :: string
  FeeCurrency :: string

text \<open>
  The cache and the wrapper hand \<open>*wsclient.Ticker\<close> around. No Ticker is written to
  after it has been built, so a pointer is modelled by the value it points to;
  \<open>None\<close> is the nil pointer.
\<close>

type_synonym TickerPtr = "Ticker option"

section \<open>Package inmemorycache\<close>

text \<open>
  \<open>CurrencyCache.internal\<close> is a Go map. It is kept as an association list with one
  entry per key: the order of the list stands for the order in which a \<open>range\<close> over
  the map happens to visit the keys, which Go leaves open, so no theorem below depends
  on it. The mutex is not part of this sequential model.
\<close>

record CurrencyCache =
  internal :: "(string \<times> TickerPtr) list"

definition NewCurrencyCache :: CurrencyCache where
  "NewCurrencyCache = \<lparr>internal = []\<rparr>"

text \<open>Reading \<open>m[k]\<close> with the comma-ok form: the zero value (nil) and false when absent.\<close>

definition map_index :: "(string \<times> TickerPtr) list \<Rightarrow> string \<Rightarrow> TickerPtr \<times> bool" where
  "map_index m k = (case map_of m k of None \<Rightarrow> (None, False) | Some p \<Rightarrow> (p, True))"

text \<open>\<open>Set\<close> returns the old pointer (nil when the key was absent) and the updated cache.\<close>

definition Set :: "CurrencyCache \<Rightarrow> string \<Rightarrow> TickerPtr \<Rightarrow> TickerPtr \<times> CurrencyCache" where
  "Set sc currencySymbol data =
     (let old = fst (map_index (internal sc) currencySymbol)
      in (old, sc\<lparr>internal := AList.update currencySymbol data (internal sc)\<rparr>))"

definition Get :: "CurrencyCache \<Rightarrow> string \<Rightarrow> TickerPtr \<times> bool" where
  "Get sc currencySymbol = map_index (internal sc) currencySymbol"

text \<open>
  \<open>GetAll\<close> visits every key of the map, reads the value stored under it and appends
  it; an empty result is reported as the error \<open>no data present\<close>.
\<close>

definition GetAll :: "CurrencyCache \<Rightarrow> error + TickerPtr list" where
  "GetAll sc =
     (let allData = foldl (\<lambda>acc i. acc @ [fst (map_index (internal sc) i)]) []
                      (map fst (internal sc))
      in if length allData = 0 then Inl (Error ''no data present'') else Inr allData)"

text \<open>
  A run of \<open>Set\<close> calls on one cache, the oldest call first: what the store holds
  after several writers have written in that order.
\<close>

fun Set_each :: "CurrencyCache \<Rightarrow> (string \<times> TickerPtr) list \<Rightarrow> CurrencyCache" where
  "Set_each sc [] = sc"
| "Set_each sc ((currencySymbol, data) # calls) =
     Set_each (snd (Set sc currencySymbol data)) calls"

section \<open>Package wsclient\<close>

subsection \<open>The REST client\<close>

text \<open>
  What \<open>json.Unmarshal\<close> leaves in an \<open>interface{}\<close>: nil, a bool, a float64, a
  string, a slice or a map. \<open>go_type\<close> is what the verb \<open>%T\<close> prints for it.
\<close>

datatype json =
    JNull
  | JBool bool
  | JNumber float64
  | JString string
  | JArray "json list"
  | JObject "(string \<times> json) list"

fun go_type :: "json \<Rightarrow> string" where
  "go_type JNull = ''<nil>''"
| "go_type (JBool _) = ''bool''"
| "go_type (JNumber _) = ''float64''"
| "go_type (JString _) = ''string''"
| "go_type (JArray _) = ''[]interface {}''"
| "go_type (JObject _) = ''map[string]interface {}''"

definition unknown_type :: "json \<Rightarrow> error" where
  "unknown_type v = Error (''i don't know about type '' @ go_type v @ '' '')"

text \<open>
  \<open>handleErr\<close>: a map with a non-nil \<open>error\<close> entry is an error of the exchange. The
  message is read with the type assertion \<open>errorMessage.(string)\<close>, which panics when
  the entry is missing or is not a string.
\<close>

definition handleErr :: "json \<Rightarrow> unit outcome" where
  "handleErr r =
     (case r of
        JObject m \<Rightarrow>
          (case map_of m ''error'' of
             None \<Rightarrow> Ok ()
           | Some JNull \<Rightarrow> Ok ()
           | Some (JObject e) \<Rightarrow>
               (case map_of e ''message'' of
                  Some (JString errorMessage) \<Rightarrow> Fail (Error errorMessage)
                | _ \<Rightarrow> Panic ''interface conversion: interface {} is not string'')
           | Some v \<Rightarrow> Fail (unknown_type v))
      | JArray _ \<Rightarrow> Ok ()
      | v \<Rightarrow> Fail (unknown_type v))"

text \<open>
  \<open>strings.ToUpper\<close> on the bytes of an ASCII string. Bytes from 128 on are left as
  they are, so the model follows Go on ASCII symbols only.
\<close>

definition upper_byte :: "char \<Rightarrow> char" where
  "upper_byte c =
     (let n = (of_char c :: nat)
      in if 97 \<le> n \<and> n \<le> 122 then char_of (n - 32) else c)"

definition ToUpper :: "string \<Rightarrow> string" where
  "ToUpper s = map upper_byte s"

text \<open>
  The calls that leave the repository's code are parameters of the model:
  \<^item> \<open>client_do\<close>: the HTTP round trip of \<open>client.do\<close> (its file is not among the
    sources). It is given the resources requested so far, the method and the resource,
    so the exchange may answer the same request differently each time;
  \<^item> \<open>json_Unmarshal\<close>: decoding the body into an \<open>interface{}\<close>;
  \<^item> \<open>json_Unmarshal_aux\<close>: decoding the body into the auxiliary struct of
    \<open>Ticker.UnmarshalJSON\<close>, giving its \<open>Timestamp\<close> string and the fields written
    through the alias into a zero Ticker;
  \<^item> \<open>time_Parse\<close>: \<open>time.Parse\<close> for a layout and a value;
  \<^item> \<open>float_syntax_of\<close>: how \<open>strconv.ParseFloat\<close> reads a string, see below.
\<close>

datatype float_syntax = WellFormed float64 | OutOfRange bool | Malformed

record Extern =
  client_do :: "string list \<Rightarrow> string \<Rightarrow> string \<Rightarrow> error + string"
  json_Unmarshal :: "string \<Rightarrow> error + json"
  json_Unmarshal_aux :: "string \<Rightarrow> error + (string \<times> Ticker)"
  time_Parse :: "string \<Rightarrow> string \<Rightarrow> error + Time"
  float_syntax_of :: "string \<Rightarrow> float_syntax"

definition UnmarshalJSON :: "Extern \<Rightarrow> string \<Rightarrow> error + Ticker" where
  "UnmarshalJSON x data =
     (case json_Unmarshal_aux x data of
        Inl err \<Rightarrow> Inl err
      | Inr (aux_Timestamp, t) \<Rightarrow>
          (case time_Parse x ''2006-01-02T15:04:05.999Z'' aux_Timestamp of
             Inl err \<Rightarrow> Inl err
           | Inr ts \<Rightarrow> Inr (t\<lparr>Timestamp := ts\<rparr>)))"

text \<open>
  \<open>HitBtc.GetTicker\<close> takes the requests sent so far and returns them with the new one
  appended. On an error Go returns the error next to a ticker that the only caller
  drops; the model returns the error alone.
\<close>

definition HitBtc_GetTicker :: "Extern \<Rightarrow> string list \<Rightarrow> string \<Rightarrow> Ticker outcome \<times> string list" where
  "HitBtc_GetTicker x sent market =
     (let resource = ''public/ticker/'' @ ToUpper market;
          sent' = sent @ [resource]
      in case client_do x sent ''GET'' resource of
           Inl err \<Rightarrow> (Fail err, sent')
         | Inr r \<Rightarrow>
             (case json_Unmarshal x r of
                Inl err \<Rightarrow> (Fail err, sent')
              | Inr response \<Rightarrow>
                  (case handleErr response of
                     Panic p \<Rightarrow> (Panic p, sent')
                   | Fail err \<Rightarrow> (Fail err, sent')
                   | Ok _ \<Rightarrow>
                       (case UnmarshalJSON x r of
                          Inl err \<Rightarrow> (Fail err, sent')
                        | Inr ticker \<Rightarrow> (Ok ticker, sent')))))"

subsection \<open>The push notification\<close>

text \<open>
  \<open>WSNotificationTickerResponse\<close>: every field is a string. The field names carry the
  prefix \<open>ws\<close> because \<open>Ticker\<close> has fields of the same names.
\<close>

record WSNotificationTickerResponse =
  wsAsk :: string
  wsBid :: string
  wsLast :: string
  wsOpen :: string
  wsLow :: string
  wsHigh :: string
  wsVolume :: string
  wsVolumeQuote :: string
  wsTimestamp :: string
  wsSymbol :: string

text \<open>
  \<open>strconv.ParseFloat(s, 64)\<close> is Go's library. By its documentation it returns the
  nearest float and no error for a well-formed string in range, plus or minus infinity
  and \<open>ErrRange\<close> for a well-formed string that is out of range (\<open>OutOfRange True\<close>
  is the negative one), and zero and \<open>ErrSyntax\<close> for a string that is not
  well-formed. Which of the three a string is comes from the parameter
  \<open>float_syntax_of\<close>.
\<close>

definition ParseFloat :: "Extern \<Rightarrow> string \<Rightarrow> float64 \<times> error option" where
  "ParseFloat x s =
     (case float_syntax_of x s of
        WellFormed f \<Rightarrow> (f, None)
      | OutOfRange negative \<Rightarrow>
          (if negative then NegInf else PosInf, Some (Error ''value out of range''))
      | Malformed \<Rightarrow> (zero_float64, Some (Error ''invalid syntax'')))"

section \<open>Package wrappers\<close>

text \<open>
  \<open>Env\<close> holds what the package reads and never writes on the paths modelled here:
  the slice \<open>supportedSymbols\<close> (declared in a file that is not among the sources, so
  it is a parameter) and the two lookup maps filled at start-up.
\<close>

record Env =
  supportedSymbols :: "string list"
  SymbolsFeeCurrency :: "string \<rightharpoonup> string"
  CurrencyFullName :: "string \<rightharpoonup> string"

text \<open>
  Of \<open>Wrappers\<close> the model keeps the cache and, for the REST client \<open>api\<close>, the
  resources it has requested so far, oldest first.
\<close>

record Wrappers =
  api :: "string list"
  summaries :: CurrencyCache

fun Contains :: "string list \<Rightarrow> string \<Rightarrow> bool" where
  "Contains [] str = False"
| "Contains (v # s) str = (if v = str then True else Contains s str)"

text \<open>
  \<open>Wrappers.GetTicker\<close> copies ten fields of the fetched ticker into a new one; the
  other three keep their zero value. The pointer it returns with a nil error is never
  nil, so the model returns the ticker itself.
\<close>

definition Wrappers_GetTicker :: "Extern \<Rightarrow> string \<Rightarrow> Wrappers \<Rightarrow> Ticker outcome \<times> Wrappers" where
  "Wrappers_GetTicker x symbol wrapper =
     (case HitBtc_GetTicker x (api wrapper) symbol of
        (Fail err, sent) \<Rightarrow> (Fail err, wrapper\<lparr>api := sent\<rparr>)
      | (Panic p, sent) \<Rightarrow> (Panic p, wrapper\<lparr>api := sent\<rparr>)
      | (Ok hitbtcTicker, sent) \<Rightarrow>
          (Ok \<lparr>ID = [], FullName = [],
               Ask = Ask hitbtcTicker, Bid = Bid hitbtcTicker, Last = Last hitbtcTicker,
               Open = Open hitbtcTicker, Low = Low hitbtcTicker, High = High hitbtcTicker,
               Volume = Volume hitbtcTicker, VolumeQuote = VolumeQuote hitbtcTicker,
               Timestamp = Timestamp hitbtcTicker, Symbol = Symbol hitbtcTicker,
               FeeCurrency = []\<rparr>,
           wrapper\<lparr>api := sent\<rparr>))"

text \<open>The two look-ups shared by both paths: the empty string when the key is absent.\<close>

definition lookup_feeCurrency :: "Env \<Rightarrow> string \<Rightarrow> string" where
  "lookup_feeCurrency env symbol =
     (case SymbolsFeeCurrency env symbol of None \<Rightarrow> [] | Some c \<Rightarrow> c)"

definition lookup_fullName :: "Env \<Rightarrow> string \<Rightarrow> string" where
  "lookup_fullName env feeCurrency =
     (case CurrencyFullName env feeCurrency of None \<Rightarrow> [] | Some n \<Rightarrow> n)"

definition GetMarketSummary :: "Env \<Rightarrow> Extern \<Rightarrow> string \<Rightarrow> Wrappers \<Rightarrow> TickerPtr outcome \<times> Wrappers" where
  "GetMarketSummary env x symbol wrapper =
     (case Get (summaries wrapper) symbol of
        (ret, exists) \<Rightarrow>
          if \<not> exists then
            (case Wrappers_GetTicker x symbol wrapper of
               (Fail err, wrapper') \<Rightarrow> (Fail err, wrapper')
             | (Panic p, wrapper') \<Rightarrow> (Panic p, wrapper')
             | (Ok hitbtcTicker, wrapper') \<Rightarrow>
                 (let feeCurrency = lookup_feeCurrency env (Symbol hitbtcTicker);
                      fullName = lookup_fullName env feeCurrency;
                      ret = Some \<lparr>ID = Symbol hitbtcTicker, FullName = fullName,
                               Ask = Ask hitbtcTicker, Bid = Bid hitbtcTicker,
                               Last = Last hitbtcTicker, Open = Open hitbtcTicker,
                               Low = Low hitbtcTicker, High = High hitbtcTicker,
                               Volume = Volume hitbtcTicker,
                               VolumeQuote = VolumeQuote hitbtcTicker,
                               Timestamp = Timestamp hitbtcTicker,
                               Symbol = Symbol hitbtcTicker,
                               FeeCurrency = feeCurrency\<rparr>
                  in if Contains (supportedSymbols env) (Symbol hitbtcTicker)
                     then (Ok ret,
                           wrapper'\<lparr>summaries := snd (Set (summaries wrapper') symbol ret)\<rparr>)
                     else (Ok ret, wrapper')))
          else (Ok ret, wrapper))"

text \<open>
  The listening task of \<open>subscribeFeeds\<close>, from the receive on the subscription's
  channel to the end of that round of its loop. The receive gives the update and
  whether the channel is still open; the result says whether the loop goes on. The
  cache is written under \<open>symbol\<close>, the symbol the task was started for. The record
  is built without a \<open>Timestamp\<close>, which therefore has the zero value.
\<close>

definition handleTicker_received ::
  "Env \<Rightarrow> Extern \<Rightarrow> string \<Rightarrow> WSNotificationTickerResponse \<times> bool \<Rightarrow> Wrappers \<Rightarrow> bool \<times> Wrappers" where
  "handleTicker_received env x symbol rcv wrapper =
     (case rcv of
        (hitbtcSummary, stillOpen) \<Rightarrow>
          if \<not> stillOpen then (False, wrapper)
          else
            (let last = fst (ParseFloat x (wsLast hitbtcSummary));
                 ask = fst (ParseFloat x (wsAsk hitbtcSummary));
                 bid = fst (ParseFloat x (wsBid hitbtcSummary));
                 open = fst (ParseFloat x (wsOpen hitbtcSummary));
                 low = fst (ParseFloat x (wsLow hitbtcSummary));
                 high = fst (ParseFloat x (wsHigh hitbtcSummary));
                 volume = fst (ParseFloat x (wsVolume hitbtcSummary));
                 volumeQuota = fst (ParseFloat x (wsVolumeQuote hitbtcSummary));
                 feeCurrency = lookup_feeCurrency env (wsSymbol hitbtcSummary);
                 fullName = lookup_fullName env feeCurrency;
                 sum = Some \<lparr>ID = wsSymbol hitbtcSummary, FullName = fullName,
                          Ask = ask, Bid = bid, Last = last, Open = open, Low = low,
                          High = high, Volume = volume, VolumeQuote = volumeQuota,
                          Timestamp = zero_Time, Symbol = wsSymbol hitbtcSummary,
                          FeeCurrency = feeCurrency\<rparr>
             in if Contains (supportedSymbols env) (wsSymbol hitbtcSummary)
                then (True, wrapper\<lparr>summaries := snd (Set (summaries wrapper) symbol sum)\<rparr>)
                else (True, wrapper)))"

section \<open>A small exchange, used to run the model\<close>

text \<open>
  One supported symbol, \<open>ETHBTC\<close>, whose fee currency \<open>BTC\<close> has a full name. The
  exchange knows the resource \<open>public/ticker/ETHBTC\<close> and refuses every other one;
  its answer, written \<open>{...}\<close>, decodes to \<open>ex_quote\<close> and to the timestamp
  of May 1, 2021, 10:00 UTC, which is 63755460000 seconds after the zero time.
  The float parser is given for the strings the examples use: \<open>100.5\<close> and \<open>101.0\<close>
  are numbers, \<open>1e999\<close> is well-formed and beyond the largest float64, and the
  remaining strings of the examples (the empty string and \<open>n/a\<close>) are not numbers.
\<close>

definition ex_env :: Env where
  "ex_env =
     \<lparr>supportedSymbols = [''ETHBTC''],
      SymbolsFeeCurrency = [''ETHBTC'' \<mapsto> ''BTC''],
      CurrencyFullName = [''BTC'' \<mapsto> ''Bitcoin'']\<rparr>"

definition ex_quote :: Ticker where
  "ex_quote =
     \<lparr>ID = [], FullName = [],
      Ask = Finite (34 / 1000), Bid = Finite (32 / 1000), Last = Finite (33 / 1000),
      Open = Finite (31 / 1000), Low = Finite (30 / 1000), High = Finite (35 / 1000),
      Volume = Finite 1200, VolumeQuote = Finite 40,
      Timestamp = zero_Time, Symbol = ''ETHBTC'', FeeCurrency = []\<rparr>"

definition ex_extern :: Extern where
  "ex_extern =
     \<lparr>client_do = (\<lambda>sent method resource.
        if method = ''GET'' \<and> resource = ''public/ticker/ETHBTC''
        then Inr ''{...}'' else Inl (Error ''connection refused'')),
      json_Unmarshal = (\<lambda>r.
        if r = ''{...}'' then Inr (JObject [(''symbol'', JString ''ETHBTC'')])
        else Inl (Error ''unexpected end of JSON input'')),
      json_Unmarshal_aux = (\<lambda>r.
        if r = ''{...}'' then Inr (''2021-05-01T10:00:00.000Z'', ex_quote)
        else Inl (Error ''unexpected end of JSON input'')),
      time_Parse = (\<lambda>layout v.
        if layout = ''2006-01-02T15:04:05.999Z'' \<and> v = ''2021-05-01T10:00:00.000Z''
        then Inr (Instant 63755460000000000000)
        else Inl (Error ''parsing time'')),
      float_syntax_of = (\<lambda>s.
        if s = ''100.5'' then WellFormed (Finite (201 / 2))
        else if s = ''101.0'' then WellFormed (Finite 101)
        else if s = ''1e999'' then OutOfRange False
        else Malformed)\<rparr>"

definition ex_wrapper :: Wrappers where
  "ex_wrapper = \<lparr>api = [], summaries = NewCurrencyCache\<rparr>"

definition ex_update :: WSNotificationTickerResponse where
  "ex_update =
     \<lparr>wsAsk = ''101.0'', wsBid = ''100.5'', wsLast = ''100.5'', wsOpen = ''100.5'',
      wsLow = ''n/a'', wsHigh = ''101.0'', wsVolume = [], wsVolumeQuote = ''101.0'',
      wsTimestamp = ''2021-05-01T10:00:00.000Z'', wsSymbol = ''ETHBTC''\<rparr>"

definition ex_update_range :: WSNotificationTickerResponse where
  "ex_update_range = ex_update\<lparr>wsLast := ''1e999''\<rparr>"

definition ex_fetched :: Ticker where
  "ex_fetched = ex_quote\<lparr>Timestamp := Instant 63755460000000000000\<rparr>"

definition ex_cached :: Ticker where
  "ex_cached = ex_fetched\<lparr>ID := ''ETHBTC'', FullName := ''Bitcoin'', FeeCurrency := ''BTC''\<rparr>"

definition ex_wrapper_cached :: Wrappers where
  "ex_wrapper_cached =
     \<lparr>api = [], summaries = snd (Set NewCurrencyCache ''ETHBTC'' (Some ex_cached))\<rparr>"

section \<open>The summary store\<close>

lemma map_index_update_same:
  "map_index (AList.update k v m) k = (v, True)"
  by (simp add: map_index_def update_conv')

lemma map_index_update_other:
  "k' \<noteq> k \<Longrightarrow> map_index (AList.update k v m) k' = map_index m k'"
  by (simp add: map_index_def update_conv')

lemma Get_Set_same:
  "Get (snd (Set sc s r)) s = (r, True)"
  by (simp add: Get_def Set_def map_index_update_same)

lemma Get_miss_after_Set:
  "snd (Get (snd (Set sc s r)) s)"
  by (simp add: Get_Set_same)

lemma Get_other_after_Set:
  "k \<noteq> s \<Longrightarrow> Get (snd (Set sc s r)) k = Get sc k"
  by (simp add: Get_def Set_def map_index_update_other)

text \<open>A cache built from the empty one by \<open>Set\<close> never holds a key twice.\<close>

lemma NewCurrencyCache_distinct:
  "distinct (map fst (internal NewCurrencyCache))"
  by (simp add: NewCurrencyCache_def)

lemma Set_distinct:
  "distinct (map fst (internal sc)) \<Longrightarrow> distinct (map fst (internal (snd (Set sc k d))))"
  by (simp add: Set_def distinct_update)

lemma Get_Set_each:
  "Get (Set_each sc ws) k =
     (case map_of (rev ws) k of None \<Rightarrow> Get sc k | Some d \<Rightarrow> (d, True))"
proof (induction ws arbitrary: sc)
  case Nil
  then show ?case by simp
next
  case (Cons w ws)
  obtain k' d' where w: "w = (k', d')" by (cases w)
  show ?case
  proof (cases "map_of (rev ws) k")
    case None
    then show ?thesis
      using Cons.IH [of "snd (Set sc k' d')"] w
      by (simp add: map_add_def Get_Set_same Get_other_after_Set)
  next
    case (Some d)
    then show ?thesis
      using Cons.IH [of "snd (Set sc k' d')"] w
      by (simp add: map_add_def)
  qed
qed

text \<open>
  C1. After \<open>Set sc s r\<close>, whatever the cache held before and whoever called \<open>Set\<close>
  (both writers go through this one function), \<open>Get\<close> for \<open>s\<close> returns \<open>r\<close> and
  \<open>true\<close>, and every other symbol reads as before. So a later \<open>Set\<close> of another
  symbol does not change what \<open>s\<close> reads, and after any run of \<open>Set\<close> calls each
  symbol reads the record of the last call for it, or what it read before the run when
  no call was for it.
\<close>

theorem Get_after_Set:
  "Get (snd (Set sc s r)) s = (r, True) \<and>
   (\<forall>k. k \<noteq> s \<longrightarrow> Get (snd (Set sc s r)) k = Get sc k) \<and>
   (\<forall>t r'. t \<noteq> s \<longrightarrow> Get (snd (Set (snd (Set sc s r)) t r')) s = (r, True)) \<and>
   (\<forall>r'. Get (snd (Set (snd (Set sc s r')) s r)) s = (r, True)) \<and>
   (\<forall>ws k. Get (Set_each sc ws) k =
      (case map_of (rev ws) k of None \<Rightarrow> Get sc k | Some d \<Rightarrow> (d, True)))"
  by (simp add: Get_Set_same Get_other_after_Set Get_Set_each)

theorem Get_after_Set_witness:
  "''XRPBTC'' \<noteq> ''ETHBTC'' \<and>
   Get (snd (Set NewCurrencyCache ''ETHBTC'' (Some ex_cached))) ''ETHBTC'' =
     (Some ex_cached, True) \<and>
   Get (snd (Set NewCurrencyCache ''ETHBTC'' (Some ex_cached))) ''XRPBTC'' = (None, False) \<and>
   Get (snd (Set (snd (Set NewCurrencyCache ''ETHBTC'' (Some ex_cached))) ''XRPBTC''
          (Some ex_fetched))) ''ETHBTC'' = (Some ex_cached, True) \<and>
   Get (Set_each NewCurrencyCache
          [(''ETHBTC'', Some ex_fetched), (''XRPBTC'', Some ex_fetched),
           (''ETHBTC'', Some ex_cached)]) ''ETHBTC'' = (Some ex_cached, True)"
proof -
  let ?sc = "snd (Set NewCurrencyCache ''ETHBTC'' (Some ex_cached))"
  let ?ws = "[(''ETHBTC'', Some ex_fetched), (''XRPBTC'', Some ex_fetched),
           (''ETHBTC'', Some ex_cached)]"
  note facts = Get_after_Set [of NewCurrencyCache "''ETHBTC''" "Some ex_cached"]
  have differ: "''XRPBTC'' \<noteq> ''ETHBTC''"
    by simp
  have empty: "Get NewCurrencyCache ''XRPBTC'' = (None, False)"
    by (simp add: Get_def map_index_def NewCurrencyCache_def)
  have same: "Get ?sc ''ETHBTC'' = (Some ex_cached, True)"
    using facts by (rule conjunct1)
  have frame: "\<forall>k. k \<noteq> ''ETHBTC'' \<longrightarrow> Get ?sc k = Get NewCurrencyCache k"
    using facts by (elim conjE)
  have next_set: "\<forall>t r'. t \<noteq> ''ETHBTC'' \<longrightarrow>
      Get (snd (Set ?sc t r')) ''ETHBTC'' = (Some ex_cached, True)"
    using facts by (elim conjE)
  have runs: "\<forall>ws k. Get (Set_each NewCurrencyCache ws) k =
      (case map_of (rev ws) k of None \<Rightarrow> Get NewCurrencyCache k | Some d \<Rightarrow> (d, True))"
    using facts by (elim conjE)
  have "Get ?sc ''XRPBTC'' = Get NewCurrencyCache ''XRPBTC''"
    using frame [rule_format, OF differ] .
  then have other: "Get ?sc ''XRPBTC'' = (None, False)"
    using empty by simp
  have later: "Get (snd (Set ?sc ''XRPBTC'' (Some ex_fetched))) ''ETHBTC'' = (Some ex_cached, True)"
    using next_set [rule_format, OF differ] .
  have last_write: "map_of (rev ?ws) ''ETHBTC'' = Some (Some ex_cached)"
    by simp
  have "Get (Set_each NewCurrencyCache ?ws) ''ETHBTC'' =
      (case map_of (rev ?ws) ''ETHBTC'' of None \<Rightarrow> Get NewCurrencyCache ''ETHBTC''
       | Some d \<Rightarrow> (d, True))"
    using runs [rule_format] .
  then have run: "Get (Set_each NewCurrencyCache ?ws) ''ETHBTC'' = (Some ex_cached, True)"
    by (simp only: last_write option.case)
  show ?thesis
    by (intro conjI differ same other later run)
qed

lemma foldl_append_each: "foldl (\<lambda>acc i. acc @ [f i]) a ks = a @ map f ks"
  by (induction ks arbitrary: a) simp_all

lemma GetAll_unfold:
  "GetAll sc =
     (if internal sc = [] then Inl (Error ''no data present'')
      else Inr (map (\<lambda>i. fst (map_index (internal sc) i)) (map fst (internal sc))))"
  by (simp add: GetAll_def foldl_append_each Let_def)

lemma no_entries_iff: "(\<forall>k. \<not> snd (Get sc k)) = (internal sc = [])"
proof
  assume all: "\<forall>k. \<not> snd (Get sc k)"
  show "internal sc = []"
  proof (cases "internal sc")
    case Nil
    then show ?thesis .
  next
    case (Cons a m)
    obtain k v where a: "a = (k, v)" by (cases a)
    have "snd (Get sc k)" using Cons a by (simp add: Get_def map_index_def)
    with all show ?thesis by blast
  qed
next
  assume "internal sc = []"
  then show "\<forall>k. \<not> snd (Get sc k)" by (simp add: Get_def map_index_def)
qed

lemma stored_values:
  "set (map (\<lambda>i. fst (map_index m i)) (map fst m)) = {p. \<exists>k. map_index m k = (p, True)}"
proof (rule set_eqI, rule iffI)
  fix p
  assume "p \<in> set (map (\<lambda>i. fst (map_index m i)) (map fst m))"
  then obtain k where k: "k \<in> fst ` set m" and p: "p = fst (map_index m k)" by auto
  from k obtain v where "map_of m k = Some v"
    by (metis domD dom_map_of_conv_image_fst)
  with p have "map_index m k = (p, True)" by (simp add: map_index_def)
  then show "p \<in> {p. \<exists>k. map_index m k = (p, True)}" by blast
next
  fix p
  assume "p \<in> {p. \<exists>k. map_index m k = (p, True)}"
  then obtain k where k: "map_index m k = (p, True)" by blast
  then have "map_of m k = Some p" by (auto simp: map_index_def split: option.splits)
  then have "(k, p) \<in> set m" by (rule map_of_SomeD)
  then have "k \<in> set (map fst m)" by force
  moreover have "fst (map_index m k) = p" using k by simp
  ultimately show "p \<in> set (map (\<lambda>i. fst (map_index m i)) (map fst m))" by force
qed

text \<open>
  C3. \<open>GetAll\<close> returns an error exactly when no symbol has an entry, and the error is
  then \<open>no data present\<close>. When some symbol has an entry, it returns a non-empty list
  whose elements are exactly the stored pointers. After any \<open>Set\<close> some symbol has an
  entry.
\<close>

theorem GetAll_EmptyCache_iff_no_entries:
  "((\<exists>e. GetAll sc = Inl e) = (\<forall>k. \<not> snd (Get sc k))) \<and>
   ((\<forall>k. \<not> snd (Get sc k)) \<longrightarrow> GetAll sc = Inl (Error ''no data present'')) \<and>
   ((\<exists>k. snd (Get sc k)) \<longrightarrow>
      (\<exists>allData. GetAll sc = Inr allData \<and> allData \<noteq> [] \<and>
         length allData = length (internal sc) \<and>
         set allData = {p. \<exists>k. Get sc k = (p, True)})) \<and>
   (\<exists>k. snd (Get (snd (Set sc s r)) k))"
proof (intro conjI impI)
  show "(\<exists>e. GetAll sc = Inl e) = (\<forall>k. \<not> snd (Get sc k))"
    by (simp add: no_entries_iff GetAll_unfold)
  show "GetAll sc = Inl (Error ''no data present'')" if "\<forall>k. \<not> snd (Get sc k)"
    using that by (simp add: no_entries_iff GetAll_unfold)
  show "\<exists>allData. GetAll sc = Inr allData \<and> allData \<noteq> [] \<and>
         length allData = length (internal sc) \<and>
         set allData = {p. \<exists>k. Get sc k = (p, True)}" if "\<exists>k. snd (Get sc k)"
  proof -
    from that have ne: "internal sc \<noteq> []" using no_entries_iff [of sc] by blast
    let ?xs = "map (\<lambda>i. fst (map_index (internal sc) i)) (map fst (internal sc))"
    have "GetAll sc = Inr ?xs" using ne by (simp add: GetAll_unfold)
    moreover have "?xs \<noteq> []" using ne by simp
    moreover have "length ?xs = length (internal sc)" by simp
    moreover have "set ?xs = {p. \<exists>k. Get sc k = (p, True)}"
      unfolding Get_def by (rule stored_values)
    ultimately show ?thesis by blast
  qed
  have "snd (Get (snd (Set sc s r)) s)"
    by (simp add: Get_def Set_def map_index_update_same)
  then show "\<exists>k. snd (Get (snd (Set sc s r)) k)" ..
qed

theorem GetAll_EmptyCache_iff_no_entries_witness:
  "(\<forall>k. \<not> snd (Get NewCurrencyCache k)) \<and>
   GetAll NewCurrencyCache = Inl (Error ''no data present'') \<and>
   (\<exists>k. snd (Get (snd (Set NewCurrencyCache ''ETHBTC'' (Some ex_cached))) k)) \<and>
   GetAll (snd (Set NewCurrencyCache ''ETHBTC'' (Some ex_cached))) = Inr [Some ex_cached]"
proof -
  let ?sc = "snd (Set NewCurrencyCache ''ETHBTC'' (Some ex_cached))"
  have empty: "\<forall>k. \<not> snd (Get NewCurrencyCache k)"
    by (simp add: Get_def map_index_def NewCurrencyCache_def)
  have err: "GetAll NewCurrencyCache = Inl (Error ''no data present'')"
    using GetAll_EmptyCache_iff_no_entries [of NewCurrencyCache] empty by blast
  have stored: "\<exists>k. snd (Get ?sc k)"
    using GetAll_EmptyCache_iff_no_entries [of NewCurrencyCache "''ETHBTC''" "Some ex_cached"]
    by blast
  then obtain allData where all: "GetAll ?sc = Inr allData" and "allData \<noteq> []"
    using GetAll_EmptyCache_iff_no_entries [of ?sc] by blast
  have "GetAll ?sc = Inr [Some ex_cached]"
    by (simp add: GetAll_def Set_def NewCurrencyCache_def map_index_def)
  with empty err stored show ?thesis by blast
qed

section \<open>The read-through path\<close>

lemma HitBtc_GetTicker_sent:
  "snd (HitBtc_GetTicker x sent market) = sent @ [''public/ticker/'' @ ToUpper market]"
  by (simp add: HitBtc_GetTicker_def Let_def split: sum.splits outcome.splits)

lemma Wrappers_GetTicker_Fail:
  "fst (HitBtc_GetTicker x (api wrapper) symbol) = Fail err \<Longrightarrow>
   Wrappers_GetTicker x symbol wrapper =
     (Fail err, wrapper\<lparr>api := api wrapper @ [''public/ticker/'' @ ToUpper symbol]\<rparr>)"
  using HitBtc_GetTicker_sent [of x "api wrapper" symbol]
  by (cases "HitBtc_GetTicker x (api wrapper) symbol") (simp add: Wrappers_GetTicker_def)

lemma Wrappers_GetTicker_Ok:
  "fst (HitBtc_GetTicker x (api wrapper) symbol) = Ok t \<Longrightarrow>
   Wrappers_GetTicker x symbol wrapper =
     (Ok (t\<lparr>ID := [], FullName := [], FeeCurrency := []\<rparr>),
      wrapper\<lparr>api := api wrapper @ [''public/ticker/'' @ ToUpper symbol]\<rparr>)"
  using HitBtc_GetTicker_sent [of x "api wrapper" symbol]
  by (cases "HitBtc_GetTicker x (api wrapper) symbol") (simp add: Wrappers_GetTicker_def)

lemma Ticker_rebuilt:
  "\<lparr>ID = i, FullName = n, Ask = Ask t, Bid = Bid t, Last = Last t, Open = Open t,
    Low = Low t, High = High t, Volume = Volume t, VolumeQuote = VolumeQuote t,
    Timestamp = Timestamp t, Symbol = Symbol t, FeeCurrency = c\<rparr> =
   t\<lparr>ID := i, FullName := n, FeeCurrency := c\<rparr>"
  by (cases t) simp

lemma GetMarketSummary_miss_Ok:
  assumes miss: "\<not> snd (Get (summaries wrapper) symbol)"
    and fetched: "fst (HitBtc_GetTicker x (api wrapper) symbol) = Ok t"
  shows "GetMarketSummary env x symbol wrapper =
     (let ret = Some (t\<lparr>ID := Symbol t,
                       FullName := lookup_fullName env (lookup_feeCurrency env (Symbol t)),
                       FeeCurrency := lookup_feeCurrency env (Symbol t)\<rparr>);
          sent = api wrapper @ [''public/ticker/'' @ ToUpper symbol]
      in if Contains (supportedSymbols env) (Symbol t)
         then (Ok ret, wrapper\<lparr>api := sent, summaries := snd (Set (summaries wrapper) symbol ret)\<rparr>)
         else (Ok ret, wrapper\<lparr>api := sent\<rparr>))"
proof -
  obtain ret where "Get (summaries wrapper) symbol = (ret, False)"
    using miss by (cases "Get (summaries wrapper) symbol") simp
  then show ?thesis
    by (simp add: GetMarketSummary_def Wrappers_GetTicker_Ok [OF fetched] Let_def Ticker_rebuilt)
qed

lemma ToUpper_xrpbtc: "ToUpper ''xrpbtc'' = ''XRPBTC''"
  by code_simp

lemma ToUpper_EthBtc: "ToUpper ''EthBtc'' = ''ETHBTC''"
  by code_simp

text \<open>
  C5. When the cache has an entry for the symbol, \<open>GetMarketSummary\<close> returns it with
  no error and leaves the wrapper as it was: no request is sent and the cache is not
  written.
\<close>

theorem GetMarketSummary_hit:
  "Get (summaries wrapper) symbol = (ret, True) \<Longrightarrow>
   GetMarketSummary env x symbol wrapper = (Ok ret, wrapper)"
  by (simp add: GetMarketSummary_def)

theorem GetMarketSummary_hit_witness:
  "Get (summaries ex_wrapper_cached) ''ETHBTC'' = (Some ex_cached, True) \<and>
   GetMarketSummary ex_env ex_extern ''ETHBTC'' ex_wrapper_cached =
     (Ok (Some ex_cached), ex_wrapper_cached)"
proof -
  have hit: "Get (summaries ex_wrapper_cached) ''ETHBTC'' = (Some ex_cached, True)"
    by (simp add: ex_wrapper_cached_def Get_Set_same)
  from GetMarketSummary_hit [OF hit] hit show ?thesis by simp
qed

text \<open>
  C6. On a miss, when the fetch returns an error, \<open>GetMarketSummary\<close> returns that
  same error, the cache is as before, and exactly one request has been sent.
\<close>

theorem GetMarketSummary_fetch_failure:
  assumes miss: "\<not> snd (Get (summaries wrapper) symbol)"
    and failure: "fst (HitBtc_GetTicker x (api wrapper) symbol) = Fail err"
  shows "fst (GetMarketSummary env x symbol wrapper) = Fail err \<and>
         summaries (snd (GetMarketSummary env x symbol wrapper)) = summaries wrapper \<and>
         api (snd (GetMarketSummary env x symbol wrapper)) =
           api wrapper @ [''public/ticker/'' @ ToUpper symbol]"
proof -
  obtain ret where "Get (summaries wrapper) symbol = (ret, False)"
    using miss by (cases "Get (summaries wrapper) symbol") simp
  then show ?thesis
    by (simp add: GetMarketSummary_def Wrappers_GetTicker_Fail [OF failure])
qed

theorem GetMarketSummary_fetch_failure_witness:
  "\<not> snd (Get (summaries ex_wrapper_cached) ''xrpbtc'') \<and>
   fst (HitBtc_GetTicker ex_extern (api ex_wrapper_cached) ''xrpbtc'') =
     Fail (Error ''connection refused'') \<and>
   fst (GetMarketSummary ex_env ex_extern ''xrpbtc'' ex_wrapper_cached) =
     Fail (Error ''connection refused'') \<and>
   summaries (snd (GetMarketSummary ex_env ex_extern ''xrpbtc'' ex_wrapper_cached)) =
     summaries ex_wrapper_cached \<and>
   api (snd (GetMarketSummary ex_env ex_extern ''xrpbtc'' ex_wrapper_cached)) =
     [''public/ticker/XRPBTC'']"
proof -
  have miss: "\<not> snd (Get (summaries ex_wrapper_cached) ''xrpbtc'')"
    by code_simp
  have failure: "fst (HitBtc_GetTicker ex_extern (api ex_wrapper_cached) ''xrpbtc'') =
      Fail (Error ''connection refused'')"
    by code_simp
  have sent: "api ex_wrapper_cached = []"
    by (simp add: ex_wrapper_cached_def)
  from GetMarketSummary_fetch_failure [OF miss failure, of ex_env] miss failure
  show ?thesis by (simp add: sent ToUpper_xrpbtc)
qed

text \<open>
  C2, as the code has it. On a miss with a successful fetch of \<open>t\<close>, the result is
  \<open>t\<close> with \<open>ID\<close> set to the fetched symbol, \<open>FeeCurrency\<close> looked up by the
  fetched symbol and \<open>FullName\<close> looked up by that fee currency, each the empty string
  when absent. The record is returned in both cases, and it is stored under the
  requested symbol exactly when the fetched symbol is in \<open>supportedSymbols\<close>.
\<close>

theorem GetMarketSummary_miss_enriched:
  assumes miss: "\<not> snd (Get (summaries wrapper) symbol)"
    and fetched: "fst (HitBtc_GetTicker x (api wrapper) symbol) = Ok t"
  shows "\<exists>feeCurrency fullName ret.
           feeCurrency = (case SymbolsFeeCurrency env (Symbol t) of None \<Rightarrow> [] | Some c \<Rightarrow> c) \<and>
           fullName = (case CurrencyFullName env feeCurrency of None \<Rightarrow> [] | Some n \<Rightarrow> n) \<and>
           ret = t\<lparr>ID := Symbol t, FullName := fullName, FeeCurrency := feeCurrency\<rparr> \<and>
           fst (GetMarketSummary env x symbol wrapper) = Ok (Some ret) \<and>
           summaries (snd (GetMarketSummary env x symbol wrapper)) =
             (if Contains (supportedSymbols env) (Symbol t)
              then snd (Set (summaries wrapper) symbol (Some ret))
              else summaries wrapper) \<and>
           snd (Get (summaries (snd (GetMarketSummary env x symbol wrapper))) symbol) =
             Contains (supportedSymbols env) (Symbol t)"
  using miss
  by (simp add: GetMarketSummary_miss_Ok [OF miss fetched] Let_def
      lookup_feeCurrency_def lookup_fullName_def Get_miss_after_Set)

theorem GetMarketSummary_miss_enriched_witness:
  "\<not> snd (Get (summaries ex_wrapper) ''ETHBTC'') \<and>
   fst (HitBtc_GetTicker ex_extern (api ex_wrapper) ''ETHBTC'') = Ok ex_fetched \<and>
   fst (GetMarketSummary ex_env ex_extern ''ETHBTC'' ex_wrapper) = Ok (Some ex_cached) \<and>
   Get (summaries (snd (GetMarketSummary ex_env ex_extern ''ETHBTC'' ex_wrapper))) ''ETHBTC'' =
     (Some ex_cached, True)"
proof -
  have miss: "\<not> snd (Get (summaries ex_wrapper) ''ETHBTC'')"
    by code_simp
  have fetched: "fst (HitBtc_GetTicker ex_extern (api ex_wrapper) ''ETHBTC'') = Ok ex_fetched"
    by code_simp
  have sym: "Symbol ex_fetched = ''ETHBTC''"
    by (simp add: ex_fetched_def ex_quote_def)
  from GetMarketSummary_miss_enriched [OF miss fetched, of ex_env]
  have "fst (GetMarketSummary ex_env ex_extern ''ETHBTC'' ex_wrapper) = Ok (Some ex_cached) \<and>
        summaries (snd (GetMarketSummary ex_env ex_extern ''ETHBTC'' ex_wrapper)) =
          snd (Set (summaries ex_wrapper) ''ETHBTC'' (Some ex_cached))"
    by (simp add: sym ex_env_def ex_cached_def)
  then show ?thesis
    using miss fetched by (simp add: Get_Set_same)
qed

text \<open>
  C2 as stated fails: \<open>ethbtc\<close> is not in \<open>supportedSymbols\<close>, the exchange answers
  the upper-cased request with the ticker of \<open>ETHBTC\<close>, which is supported, and the
  record is stored under \<open>ethbtc\<close>.
\<close>

theorem GetMarketSummary_gate_counterexample:
  "\<not> snd (Get (summaries ex_wrapper) ''ethbtc'') \<and>
   fst (HitBtc_GetTicker ex_extern (api ex_wrapper) ''ethbtc'') = Ok ex_fetched \<and>
   \<not> Contains (supportedSymbols ex_env) ''ethbtc'' \<and>
   Get (summaries (snd (GetMarketSummary ex_env ex_extern ''ethbtc'' ex_wrapper))) ''ethbtc'' =
     (Some ex_cached, True)"
  by code_simp

text \<open>
  C10. On a miss with a successful fetch of \<open>t\<close>, the request went to the upper-cased
  symbol; the returned record has the fetched symbol as \<open>Symbol\<close> and \<open>ID\<close>; whether
  it is stored is decided by the fetched symbol; and when stored it is the entry of the
  requested symbol, every other entry being as before.
\<close>

theorem GetMarketSummary_miss_key_and_gate:
  assumes miss: "\<not> snd (Get (summaries wrapper) symbol)"
    and fetched: "fst (HitBtc_GetTicker x (api wrapper) symbol) = Ok t"
  shows "\<exists>ret.
           fst (GetMarketSummary env x symbol wrapper) = Ok (Some ret) \<and>
           Symbol ret = Symbol t \<and> ID ret = Symbol t \<and>
           api (snd (GetMarketSummary env x symbol wrapper)) =
             api wrapper @ [''public/ticker/'' @ ToUpper symbol] \<and>
           (if Contains (supportedSymbols env) (Symbol t)
            then Get (summaries (snd (GetMarketSummary env x symbol wrapper))) symbol =
                   (Some ret, True) \<and>
                 (\<forall>k. k \<noteq> symbol \<longrightarrow>
                    Get (summaries (snd (GetMarketSummary env x symbol wrapper))) k =
                    Get (summaries wrapper) k)
            else summaries (snd (GetMarketSummary env x symbol wrapper)) = summaries wrapper)"
  by (simp add: GetMarketSummary_miss_Ok [OF miss fetched] Let_def Get_Set_same
      Get_other_after_Set)

theorem GetMarketSummary_miss_key_and_gate_witness:
  "\<not> snd (Get (summaries ex_wrapper) ''EthBtc'') \<and>
   fst (HitBtc_GetTicker ex_extern (api ex_wrapper) ''EthBtc'') = Ok ex_fetched \<and>
   \<not> Contains (supportedSymbols ex_env) ''EthBtc'' \<and>
   Contains (supportedSymbols ex_env) (Symbol ex_fetched) \<and>
   Get (summaries (snd (GetMarketSummary ex_env ex_extern ''EthBtc'' ex_wrapper))) ''EthBtc'' =
     (Some ex_cached, True) \<and>
   Symbol ex_cached = ''ETHBTC'' \<and> ID ex_cached = ''ETHBTC'' \<and>
   api (snd (GetMarketSummary ex_env ex_extern ''EthBtc'' ex_wrapper)) =
     [''public/ticker/ETHBTC'']"
proof -
  have miss: "\<not> snd (Get (summaries ex_wrapper) ''EthBtc'')"
    by code_simp
  have fetched: "fst (HitBtc_GetTicker ex_extern (api ex_wrapper) ''EthBtc'') = Ok ex_fetched"
    by code_simp
  have gate: "\<not> Contains (supportedSymbols ex_env) ''EthBtc''"
    "Contains (supportedSymbols ex_env) (Symbol ex_fetched)"
    by (simp_all add: ex_env_def ex_fetched_def ex_quote_def)
  have ret: "fst (GetMarketSummary ex_env ex_extern ''EthBtc'' ex_wrapper) = Ok (Some ex_cached)"
    by code_simp
  have sent: "api ex_wrapper = []"
    by (simp add: ex_wrapper_def)
  have sym: "Symbol ex_fetched = ''ETHBTC''"
    by (simp add: ex_fetched_def ex_quote_def)
  from GetMarketSummary_miss_key_and_gate [OF miss fetched, of ex_env] gate ret
  have "Get (summaries (snd (GetMarketSummary ex_env ex_extern ''EthBtc'' ex_wrapper))) ''EthBtc'' =
          (Some ex_cached, True) \<and>
        Symbol ex_cached = ''ETHBTC'' \<and> ID ex_cached = ''ETHBTC'' \<and>
        api (snd (GetMarketSummary ex_env ex_extern ''EthBtc'' ex_wrapper)) =
          [''public/ticker/ETHBTC'']"
    by (auto simp add: sent sym ToUpper_EthBtc)
  with miss fetched gate show ?thesis by simp
qed

section \<open>The push path\<close>

lemma ParseFloat_value:
  "fst (ParseFloat x s) =
     (case float_syntax_of x s of
        WellFormed f \<Rightarrow> f
      | OutOfRange negative \<Rightarrow> (if negative then NegInf else PosInf)
      | Malformed \<Rightarrow> zero_float64)"
  by (simp add: ParseFloat_def split: float_syntax.splits)

lemma ParseFloat_error:
  "(snd (ParseFloat x s) = None) = (\<exists>f. float_syntax_of x s = WellFormed f)"
  by (simp add: ParseFloat_def split: float_syntax.splits)

lemma handleTicker_received_open:
  "handleTicker_received env x symbol (u, True) wrapper =
     (let feeCurrency = lookup_feeCurrency env (wsSymbol u);
          sum = \<lparr>ID = wsSymbol u, FullName = lookup_fullName env feeCurrency,
                 Ask = fst (ParseFloat x (wsAsk u)), Bid = fst (ParseFloat x (wsBid u)),
                 Last = fst (ParseFloat x (wsLast u)), Open = fst (ParseFloat x (wsOpen u)),
                 Low = fst (ParseFloat x (wsLow u)), High = fst (ParseFloat x (wsHigh u)),
                 Volume = fst (ParseFloat x (wsVolume u)),
                 VolumeQuote = fst (ParseFloat x (wsVolumeQuote u)),
                 Timestamp = zero_Time, Symbol = wsSymbol u, FeeCurrency = feeCurrency\<rparr>
      in if Contains (supportedSymbols env) (wsSymbol u)
         then (True, wrapper\<lparr>summaries := snd (Set (summaries wrapper) symbol (Some sum))\<rparr>)
         else (True, wrapper))"
  by (simp add: handleTicker_received_def Let_def)

text \<open>
  C4, as the code has it. For every update received on an open channel the task goes
  on with its loop, and the record it builds has each numeric field set to what
  \<open>ParseFloat\<close> returns for the field's string, its error dropped: the number for a
  well-formed string, zero for a string that is not a number, and plus or minus
  infinity for a well-formed string that is out of range. The record has the update's
  symbol as \<open>Symbol\<close> and \<open>ID\<close> and the same two look-ups as the read-through path.
  The record is fixed by the update alone: it is the same for every wrapper state and
  every task symbol, so nothing is read from the cache before it is written. When the
  update's symbol is in \<open>supportedSymbols\<close> the record is stored under the task's
  symbol, whatever was stored there, and nothing else changes; otherwise nothing changes
  at all.
\<close>

theorem handleTicker_received_update:
  "\<exists>sum.
     Last sum = fst (ParseFloat x (wsLast u)) \<and>
     Ask sum = fst (ParseFloat x (wsAsk u)) \<and>
     Bid sum = fst (ParseFloat x (wsBid u)) \<and>
     Open sum = fst (ParseFloat x (wsOpen u)) \<and>
     Low sum = fst (ParseFloat x (wsLow u)) \<and>
     High sum = fst (ParseFloat x (wsHigh u)) \<and>
     Volume sum = fst (ParseFloat x (wsVolume u)) \<and>
     VolumeQuote sum = fst (ParseFloat x (wsVolumeQuote u)) \<and>
     Symbol sum = wsSymbol u \<and> ID sum = wsSymbol u \<and>
     FeeCurrency sum =
       (case SymbolsFeeCurrency env (wsSymbol u) of None \<Rightarrow> [] | Some c \<Rightarrow> c) \<and>
     FullName sum =
       (case CurrencyFullName env (FeeCurrency sum) of None \<Rightarrow> [] | Some n \<Rightarrow> n) \<and>
     (\<forall>symbol wrapper.
        handleTicker_received env x symbol (u, True) wrapper =
          (True,
           if Contains (supportedSymbols env) (wsSymbol u)
           then wrapper\<lparr>summaries := snd (Set (summaries wrapper) symbol (Some sum))\<rparr>
           else wrapper) \<and>
        (Contains (supportedSymbols env) (wsSymbol u) \<longrightarrow>
           Get (summaries (snd (handleTicker_received env x symbol (u, True) wrapper))) symbol =
             (Some sum, True) \<and>
           (\<forall>k. k \<noteq> symbol \<longrightarrow>
              Get (summaries (snd (handleTicker_received env x symbol (u, True) wrapper))) k =
              Get (summaries wrapper) k))) \<and>
     (\<forall>s. fst (ParseFloat x s) =
        (case float_syntax_of x s of
           WellFormed f \<Rightarrow> f
         | OutOfRange negative \<Rightarrow> (if negative then NegInf else PosInf)
         | Malformed \<Rightarrow> zero_float64)) \<and>
     (\<forall>s. (snd (ParseFloat x s) = None) = (\<exists>f. float_syntax_of x s = WellFormed f))"
proof -
  define feeCurrency where "feeCurrency = lookup_feeCurrency env (wsSymbol u)"
  define sum where
    "sum = \<lparr>ID = wsSymbol u, FullName = lookup_fullName env feeCurrency,
             Ask = fst (ParseFloat x (wsAsk u)), Bid = fst (ParseFloat x (wsBid u)),
             Last = fst (ParseFloat x (wsLast u)), Open = fst (ParseFloat x (wsOpen u)),
             Low = fst (ParseFloat x (wsLow u)), High = fst (ParseFloat x (wsHigh u)),
             Volume = fst (ParseFloat x (wsVolume u)),
             VolumeQuote = fst (ParseFloat x (wsVolumeQuote u)),
             Timestamp = zero_Time, Symbol = wsSymbol u, FeeCurrency = feeCurrency\<rparr>"
  have numbers:
    "Last sum = fst (ParseFloat x (wsLast u))" "Ask sum = fst (ParseFloat x (wsAsk u))"
    "Bid sum = fst (ParseFloat x (wsBid u))" "Open sum = fst (ParseFloat x (wsOpen u))"
    "Low sum = fst (ParseFloat x (wsLow u))" "High sum = fst (ParseFloat x (wsHigh u))"
    "Volume sum = fst (ParseFloat x (wsVolume u))"
    "VolumeQuote sum = fst (ParseFloat x (wsVolumeQuote u))"
    by (simp_all add: sum_def)
  have names: "Symbol sum = wsSymbol u" "ID sum = wsSymbol u"
    "FeeCurrency sum =
       (case SymbolsFeeCurrency env (wsSymbol u) of None \<Rightarrow> [] | Some c \<Rightarrow> c)"
    "FullName sum =
       (case CurrencyFullName env (FeeCurrency sum) of None \<Rightarrow> [] | Some n \<Rightarrow> n)"
    by (simp_all add: sum_def feeCurrency_def lookup_feeCurrency_def lookup_fullName_def)
  have step: "handleTicker_received env x symbol (u, True) wrapper =
       (True,
        if Contains (supportedSymbols env) (wsSymbol u)
        then wrapper\<lparr>summaries := snd (Set (summaries wrapper) symbol (Some sum))\<rparr>
        else wrapper)" for symbol wrapper
    by (simp add: handleTicker_received_open Let_def sum_def feeCurrency_def)
  have stored: "Contains (supportedSymbols env) (wsSymbol u) \<longrightarrow>
        Get (summaries (snd (handleTicker_received env x symbol (u, True) wrapper))) symbol =
          (Some sum, True) \<and>
        (\<forall>k. k \<noteq> symbol \<longrightarrow>
           Get (summaries (snd (handleTicker_received env x symbol (u, True) wrapper))) k =
           Get (summaries wrapper) k)" for symbol wrapper
    by (simp add: step Get_Set_same Get_other_after_Set)
  have every: "\<forall>symbol wrapper.
        handleTicker_received env x symbol (u, True) wrapper =
          (True,
           if Contains (supportedSymbols env) (wsSymbol u)
           then wrapper\<lparr>summaries := snd (Set (summaries wrapper) symbol (Some sum))\<rparr>
           else wrapper) \<and>
        (Contains (supportedSymbols env) (wsSymbol u) \<longrightarrow>
           Get (summaries (snd (handleTicker_received env x symbol (u, True) wrapper))) symbol =
             (Some sum, True) \<and>
           (\<forall>k. k \<noteq> symbol \<longrightarrow>
              Get (summaries (snd (handleTicker_received env x symbol (u, True) wrapper))) k =
              Get (summaries wrapper) k))"
    using step stored by blast
  have parsed: "\<forall>s. fst (ParseFloat x s) =
        (case float_syntax_of x s of
           WellFormed f \<Rightarrow> f
         | OutOfRange negative \<Rightarrow> (if negative then NegInf else PosInf)
         | Malformed \<Rightarrow> zero_float64)"
    by (simp add: ParseFloat_value)
  have failed: "\<forall>s. (snd (ParseFloat x s) = None) = (\<exists>f. float_syntax_of x s = WellFormed f)"
    by (simp add: ParseFloat_error)
  show ?thesis
    by (rule exI [of _ sum]) (intro conjI numbers names every parsed failed)
qed

theorem handleTicker_received_update_witness:
  "Contains (supportedSymbols ex_env) (wsSymbol ex_update) \<and>
   fst (Get (summaries ex_wrapper_cached) ''ETHBTC'') = Some ex_cached \<and>
   fst (Get (summaries ex_wrapper) ''ETHBTC'') = None \<and>
   fst (handleTicker_received ex_env ex_extern ''ETHBTC'' (ex_update, True) ex_wrapper_cached) \<and>
   (\<exists>sum.
      Get (summaries (snd (handleTicker_received ex_env ex_extern ''ETHBTC'' (ex_update, True)
            ex_wrapper_cached))) ''ETHBTC'' = (Some sum, True) \<and>
      Get (summaries (snd (handleTicker_received ex_env ex_extern ''ETHBTC'' (ex_update, True)
            ex_wrapper))) ''ETHBTC'' = (Some sum, True) \<and>
      Last sum = Finite (201 / 2) \<and> Ask sum = Finite 101 \<and> Bid sum = Finite (201 / 2) \<and>
      Open sum = Finite (201 / 2) \<and> Low sum = Finite 0 \<and> High sum = Finite 101 \<and>
      Volume sum = Finite 0 \<and> VolumeQuote sum = Finite 101 \<and>
      Symbol sum = ''ETHBTC'' \<and> ID sum = ''ETHBTC'' \<and>
      FeeCurrency sum = ''BTC'' \<and> FullName sum = ''Bitcoin'')"
proof -
  have supported: "Contains (supportedSymbols ex_env) (wsSymbol ex_update)"
    by (simp add: ex_env_def ex_update_def)
  have before: "fst (Get (summaries ex_wrapper_cached) ''ETHBTC'') = Some ex_cached"
    by (simp add: ex_wrapper_cached_def Get_Set_same)
  have before_empty: "fst (Get (summaries ex_wrapper) ''ETHBTC'') = None"
    by (simp add: ex_wrapper_def Get_def map_index_def NewCurrencyCache_def)
  have vals:
    "fst (ParseFloat ex_extern (wsLast ex_update)) = Finite (201 / 2)"
    "fst (ParseFloat ex_extern (wsAsk ex_update)) = Finite 101"
    "fst (ParseFloat ex_extern (wsBid ex_update)) = Finite (201 / 2)"
    "fst (ParseFloat ex_extern (wsOpen ex_update)) = Finite (201 / 2)"
    "fst (ParseFloat ex_extern (wsLow ex_update)) = Finite 0"
    "fst (ParseFloat ex_extern (wsHigh ex_update)) = Finite 101"
    "fst (ParseFloat ex_extern (wsVolume ex_update)) = Finite 0"
    "fst (ParseFloat ex_extern (wsVolumeQuote ex_update)) = Finite 101"
    by (simp_all add: ParseFloat_def ex_extern_def ex_update_def zero_float64_def)
  have names: "wsSymbol ex_update = ''ETHBTC''"
    "SymbolsFeeCurrency ex_env ''ETHBTC'' = Some ''BTC''"
    "CurrencyFullName ex_env ''BTC'' = Some ''Bitcoin''"
    by (simp_all add: ex_env_def ex_update_def)
  from handleTicker_received_update [of ex_extern ex_update ex_env]
  obtain sum where fields:
    "Last sum = fst (ParseFloat ex_extern (wsLast ex_update))"
    "Ask sum = fst (ParseFloat ex_extern (wsAsk ex_update))"
    "Bid sum = fst (ParseFloat ex_extern (wsBid ex_update))"
    "Open sum = fst (ParseFloat ex_extern (wsOpen ex_update))"
    "Low sum = fst (ParseFloat ex_extern (wsLow ex_update))"
    "High sum = fst (ParseFloat ex_extern (wsHigh ex_update))"
    "Volume sum = fst (ParseFloat ex_extern (wsVolume ex_update))"
    "VolumeQuote sum = fst (ParseFloat ex_extern (wsVolumeQuote ex_update))"
    "Symbol sum = wsSymbol ex_update" "ID sum = wsSymbol ex_update"
    "FeeCurrency sum =
       (case SymbolsFeeCurrency ex_env (wsSymbol ex_update) of None \<Rightarrow> [] | Some c \<Rightarrow> c)"
    "FullName sum =
       (case CurrencyFullName ex_env (FeeCurrency sum) of None \<Rightarrow> [] | Some n \<Rightarrow> n)"
    and every: "\<And>symbol wrapper.
       Contains (supportedSymbols ex_env) (wsSymbol ex_update) \<longrightarrow>
       Get (summaries (snd (handleTicker_received ex_env ex_extern symbol (ex_update, True)
             wrapper))) symbol = (Some sum, True)"
    by blast
  have "Get (summaries (snd (handleTicker_received ex_env ex_extern ''ETHBTC'' (ex_update, True)
            ex_wrapper_cached))) ''ETHBTC'' = (Some sum, True)"
    "Get (summaries (snd (handleTicker_received ex_env ex_extern ''ETHBTC'' (ex_update, True)
            ex_wrapper))) ''ETHBTC'' = (Some sum, True)"
    using every supported by blast+
  moreover have
    "Last sum = Finite (201 / 2) \<and> Ask sum = Finite 101 \<and> Bid sum = Finite (201 / 2) \<and>
      Open sum = Finite (201 / 2) \<and> Low sum = Finite 0 \<and> High sum = Finite 101 \<and>
      Volume sum = Finite 0 \<and> VolumeQuote sum = Finite 101 \<and>
      Symbol sum = ''ETHBTC'' \<and> ID sum = ''ETHBTC'' \<and>
      FeeCurrency sum = ''BTC'' \<and> FullName sum = ''Bitcoin''"
    using fields by (simp add: vals names)
  moreover have "fst (handleTicker_received ex_env ex_extern ''ETHBTC'' (ex_update, True) ex_wrapper_cached)"
    by (simp add: handleTicker_received_open Let_def)
  ultimately show ?thesis using supported before before_empty by blast
qed

text \<open>
  C4 as stated fails: the string \<open>1e999\<close> is a failed conversion (out of range), and
  the field stored for it is plus infinity, not zero.
\<close>

theorem handleTicker_received_range_counterexample:
  "wsLast ex_update_range = ''1e999'' \<and>
   ParseFloat ex_extern ''1e999'' = (PosInf, Some (Error ''value out of range'')) \<and>
   Contains (supportedSymbols ex_env) (wsSymbol ex_update_range) \<and>
   map_option Last
     (fst (Get (summaries (snd (handleTicker_received ex_env ex_extern ''ETHBTC''
            (ex_update_range, True) ex_wrapper))) ''ETHBTC'')) = Some PosInf \<and>
   PosInf \<noteq> zero_float64"
  by code_simp

text \<open>
  C9 says that an update which provides a timestamp gives a stored record carrying it.
  The code at such an update: \<open>ex_update\<close> carries
  \<open>2021-05-01T10:00:00.000Z\<close>, which parses to an instant, and the record stored for
  it has the zero time.
\<close>

theorem handleTicker_received_drops_Timestamp:
  "wsTimestamp ex_update = ''2021-05-01T10:00:00.000Z'' \<and>
   time_Parse ex_extern ''2006-01-02T15:04:05.999Z'' (wsTimestamp ex_update) =
     Inr (Instant 63755460000000000000) \<and>
   Contains (supportedSymbols ex_env) (wsSymbol ex_update) \<and>
   map_option Timestamp
     (fst (Get (summaries (snd (handleTicker_received ex_env ex_extern ''ETHBTC''
            (ex_update, True) ex_wrapper))) ''ETHBTC'')) = Some (Instant 0)"
  by code_simp

text \<open>The same for every update of a supported symbol.\<close>

lemma handleTicker_received_Timestamp:
  "Contains (supportedSymbols env) (wsSymbol u) \<Longrightarrow>
   map_option Timestamp
     (fst (Get (summaries (snd (handleTicker_received env x symbol (u, True) wrapper))) symbol)) =
   Some zero_Time"
  by (simp add: handleTicker_received_open Let_def Get_Set_same)

end
